theory Spec2Isabelle
  imports Main "HOL-Library.Word"
begin

section \<open>Humidity and temperature alarm (src/main.c)\<close>

text \<open>
  The firmware keeps all of its data in global variables of type \<open>int8_t\<close>, which are
  modelled as 8-bit words read through \<open>sint\<close> wherever C promotes them to \<open>int\<close>.
  The drivers (text display, LED matrix, sensor) are external; every call the firmware
  makes to them is appended to a trace in the state, most recent call last.
\<close>

type_synonym int8_t = "8 word"

subsection \<open>User configuration\<close>

text \<open>
  The four limits are preprocessor constants. They are taken as a parameter, so that
  every statement holds for every configuration. A limit is either \<open>NULL\<close>, the
  null pointer the header asks for where no limit is wanted, or an integer constant.
\<close>

datatype limit = NULL | Integer int

record limits =
  TEMP_LIMIT_MIN :: limit
  TEMP_LIMIT_MAX :: limit
  HUM_LIMIT_MIN :: limit
  HUM_LIMIT_MAX :: limit

text \<open>
  \<open>is_set l\<close> is the test \<open>l != NULL\<close>: the integer 0 is a null pointer constant and
  compares equal to \<open>NULL\<close>. \<open>limit_value l\<close> is the limit where it is used as an
  \<open>int\<close>, in \<open>l < temperature\<close> (evaluated only after \<open>l != NULL\<close>) and as the
  argument of \<open>sprintf\<close>, where a null pointer is read as 0.
\<close>

fun is_set :: "limit \<Rightarrow> bool" where
  "is_set NULL = False"
| "is_set (Integer n) = (n \<noteq> 0)"

fun limit_value :: "limit \<Rightarrow> int" where
  "limit_value NULL = 0"
| "limit_value (Integer n) = n"

text \<open>
  \<open>exceeds a b\<close> is the comparison \<open>a > b\<close> of line 488. Two integer constants are
  compared as integers. When one side is \<open>NULL\<close> the other is converted to a pointer
  and the two are compared as 16-bit addresses, which are unsigned.
\<close>

fun pointer_of :: "limit \<Rightarrow> int" where
  "pointer_of NULL = 0"
| "pointer_of (Integer n) = n mod 2 ^ 16"

fun exceeds :: "limit \<Rightarrow> limit \<Rightarrow> bool" where
  "exceeds (Integer a) (Integer b) = (a > b)"
| "exceeds a b = (pointer_of a > pointer_of b)"

text \<open>The configuration the source file ships with (lines 49 to 52).\<close>

definition shipped_limits :: limits where
  "shipped_limits =
     \<lparr>TEMP_LIMIT_MIN = Integer 20, TEMP_LIMIT_MAX = Integer 30,
      HUM_LIMIT_MIN = Integer 20, HUM_LIMIT_MAX = Integer 50\<rparr>"

subsection \<open>Driver calls and global state\<close>

datatype call =
    Lcd_init
  | Lcd_clrscr
  | Lcd_goto nat
  | Lcd_puts string
  | Max7219_init
  | Max7219_shutdown nat nat
  | Max7219_test nat nat
  | Max7219_decode nat nat
  | Max7219_intensity nat nat
  | Max7219_scanlimit nat nat
  | Max7219_digit nat nat nat
  | Dht_gettemperaturehumidity
  | WarningSounds int
  | MatrixDisplay_animate "8 word list" nat

text \<open>
  \<open>WarningSounds ms\<close> stands for one run of \<open>warningSounds\<close> (a busy loop that toggles
  the speaker pin) and \<open>MatrixDisplay_animate rows n\<close> for one run of
  \<open>matrixDisplay_animate\<close> (the frame loop over the LED matrix). Both only occupy time
  and write to their own device, so the trace records that they ran and with which
  arguments.
\<close>

datatype error = Uninitialized_read

record state =
  temp_exceeded_dir :: int8_t
  hum_exceeded_dir :: int8_t
  current_animation :: int8_t
  last_animation_done :: int8_t
  test_frequency :: int8_t
  display_step :: int8_t
  temperature_max :: int8_t
  temperature_min :: int8_t
  temperature_previous :: int8_t
  humidity_max :: int8_t
  humidity_min :: int8_t
  humidity_previous :: int8_t
  temperature :: int8_t
  humidity :: int8_t
  interrupts :: bool
  calls :: "call list"

text \<open>The initialisers of the globals (lines 58 to 76); interrupts are off at reset.\<close>

definition power_up :: state where
  "power_up =
     \<lparr>temp_exceeded_dir = 0, hum_exceeded_dir = 0, current_animation = 1,
      last_animation_done = 1, test_frequency = 0, display_step = 0,
      temperature_max = 0, temperature_min = 99, temperature_previous = 0,
      humidity_max = 0, humidity_min = 99, humidity_previous = 0,
      temperature = 0, humidity = 0, interrupts = False, calls = []\<rparr>"

definition LEDMATRIX_CHECK :: "8 word list" where
  "LEDMATRIX_CHECK = [0x00, 0x03, 0x07, 0x0E, 0xDC, 0xF8, 0xF0, 0x60]"

definition LEDMATRIX_WARNING :: "8 word list" where
  "LEDMATRIX_WARNING = [0x00, 0x66, 0x66, 0x66, 0x66, 0x00, 0x66, 0x00]"

definition LEDMATRIX_HEART :: "8 word list" where
  "LEDMATRIX_HEART = [0x00, 0x66, 0x99, 0x81, 0x81, 0x42, 0x24, 0x18]"

subsection \<open>Formatting with \<open>sprintf(str, "%d", n)\<close>\<close>

fun show_nat :: "nat \<Rightarrow> string" where
  "show_nat n =
     (if n < 10 then [''0123456789'' ! n]
      else show_nat (n div 10) @ [''0123456789'' ! (n mod 10)])"

declare show_nat.simps [simp del]

definition show_int :: "int \<Rightarrow> string" where
  "show_int i = (if i < 0 then CHR ''-'' # show_nat (nat (- i)) else show_nat (nat i))"

subsection \<open>The panes\<close>

definition printTempHum_Current :: "int \<Rightarrow> int \<Rightarrow> call list" where
  "printTempHum_Current temperature_p humidity_p =
     [Lcd_goto 0, Lcd_puts ''Temperature: '', Lcd_puts (show_int temperature_p),
      Lcd_puts ''C  '',
      Lcd_goto 0x40, Lcd_puts ''Humidity:    '', Lcd_puts (show_int humidity_p),
      Lcd_puts ''%  '']"

definition printTemp_History :: "int \<Rightarrow> int \<Rightarrow> call list" where
  "printTemp_History temperature_max_p temperature_min_p =
     [Lcd_goto 0, Lcd_puts ''Temp. history:   '',
      Lcd_goto 0x40, Lcd_puts ''Min '', Lcd_puts (show_int temperature_min_p),
      Lcd_puts ''C Max '', Lcd_puts (show_int temperature_max_p), Lcd_puts ''C   '']"

definition printHum_History :: "int \<Rightarrow> int \<Rightarrow> call list" where
  "printHum_History humidity_max_p humidity_min_p =
     [Lcd_goto 0, Lcd_puts ''Hum. history:    '',
      Lcd_goto 0x40, Lcd_puts ''Min '', Lcd_puts (show_int humidity_min_p),
      Lcd_puts ''% Max '', Lcd_puts (show_int humidity_max_p), Lcd_puts ''%   '']"

text \<open>
  \<open>printWarning\<close> fills its buffer \<open>str\<close> only when \<open>exceeded_dir\<close> is 1 or -1 and
  prints it in any case for \<open>tempOrHum\<close> 0 or 1: with another direction the buffer is
  read uninitialised, which is the error branch here.
\<close>

definition printWarning :: "limits \<Rightarrow> int \<Rightarrow> int \<Rightarrow> error + call list" where
  "printWarning L tempOrHum exceeded_dir =
     (if tempOrHum = 0 then
        (if exceeded_dir = 1 then
           Inr [Lcd_goto 0, Lcd_puts ''HIGH TEMPERATURE'', Lcd_goto 0x40, Lcd_puts ''Over '',
                Lcd_puts (show_int (limit_value (TEMP_LIMIT_MAX L))), Lcd_puts ''C limit! '',
                WarningSounds 2000]
         else if exceeded_dir = - 1 then
           Inr [Lcd_goto 0, Lcd_puts ''LOW TEMPERATURE '', Lcd_goto 0x40, Lcd_puts ''Under '',
                Lcd_puts (show_int (limit_value (TEMP_LIMIT_MIN L))), Lcd_puts ''C limit! '',
                WarningSounds 2000]
         else Inl Uninitialized_read)
      else if tempOrHum = 1 then
        (if exceeded_dir = 1 then
           Inr [Lcd_goto 0, Lcd_puts ''HIGH HUMIDITY   '', Lcd_goto 0x40, Lcd_puts ''Over '',
                Lcd_puts (show_int (limit_value (HUM_LIMIT_MAX L))), Lcd_puts ''% limit! '',
                WarningSounds 2000]
         else if exceeded_dir = - 1 then
           Inr [Lcd_goto 0, Lcd_puts ''LOW HUMIDITY    '', Lcd_goto 0x40, Lcd_puts ''Under '',
                Lcd_puts (show_int (limit_value (HUM_LIMIT_MIN L))), Lcd_puts ''% limit! '',
                WarningSounds 2000]
         else Inl Uninitialized_read)
      else Inr [Lcd_goto 0, WarningSounds 2000])"

subsection \<open>The timer interrupt\<close>

text \<open>The pane the handler draws (lines 119 to 138).\<close>

definition ISR_pane :: "limits \<Rightarrow> state \<Rightarrow> error + call list" where
  "ISR_pane L s =
     (if sint (display_step s) = 0 \<and>
         (sint (temp_exceeded_dir s) = 1 \<or> sint (temp_exceeded_dir s) = - 1) then
        printWarning L 0 (sint (temp_exceeded_dir s))
      else if sint (display_step s) = 1 \<and>
         (sint (hum_exceeded_dir s) = 1 \<or> sint (hum_exceeded_dir s) = - 1) then
        printWarning L 1 (sint (hum_exceeded_dir s))
      else if sint (display_step s) \<le> 2 then
        Inr (printTempHum_Current (sint (temperature s)) (sint (humidity s)))
      else if sint (display_step s) = 3 then
        Inr (printTemp_History (sint (temperature_max s)) (sint (temperature_min s)))
      else if sint (display_step s) = 4 then
        Inr (printHum_History (sint (humidity s)) (sint (humidity_min s)))
      else Inr [])"

text \<open>The step counter (lines 140 to 144).\<close>

definition ISR_step :: "state \<Rightarrow> state" where
  "ISR_step s =
     (let s1 = s\<lparr>display_step := display_step s + 1\<rparr>
      in if sint (display_step s1) > 4 then s1\<lparr>display_step := 0\<rparr> else s1)"

text \<open>The animation (lines 147 to 162).\<close>

definition ISR_bitmap :: "state \<Rightarrow> 8 word list" where
  "ISR_bitmap s =
     (if sint (current_animation s) = 0 then LEDMATRIX_CHECK
      else if sint (current_animation s) = 1 then LEDMATRIX_WARNING
      else LEDMATRIX_HEART)"

definition ISR_animation :: "state \<Rightarrow> state" where
  "ISR_animation s =
     (if sint (last_animation_done s) = 1 then
        s\<lparr>calls := calls s @ [MatrixDisplay_animate (ISR_bitmap s) 1],
          last_animation_done := 1\<rparr>
      else s)"

definition ISR :: "limits \<Rightarrow> state \<Rightarrow> error + state" where
  "ISR L s =
     (case ISR_pane L s of
        Inl e \<Rightarrow> Inl e
      | Inr pane \<Rightarrow> Inr (ISR_animation (ISR_step (s\<lparr>calls := calls s @ pane\<rparr>))))"

subsection \<open>The validator and the limit evaluator\<close>

definition isNewResultValid :: "state \<Rightarrow> int \<times> state" where
  "isNewResultValid s =
     (if sint (test_frequency s) < 1 then
        (1, s\<lparr>temperature_previous := temperature s,
              humidity_previous := humidity s,
              test_frequency := test_frequency s + 1\<rparr>)
      else if sint (temperature s) - sint (temperature_previous s) < - 5 \<or>
              sint (temperature s) - sint (temperature_previous s) > 5 then (0, s)
      else if sint (humidity s) - sint (humidity_previous s) < - 5 \<or>
              sint (humidity s) - sint (humidity_previous s) > 5 then (0, s)
      else (1, s\<lparr>temperature_previous := temperature s,
                 humidity_previous := humidity s\<rparr>))"

text \<open>
  \<open>checkStats\<close> takes the sample as two \<open>int\<close> parameters (they hide the globals of the
  same name), while \<open>isNewResultValid\<close> reads the globals. Its body is two blocks:
  the limits (lines 364 to 394) and the stored extremes (lines 397 to 413).
\<close>

definition check_limits :: "limits \<Rightarrow> int \<Rightarrow> int \<Rightarrow> state \<Rightarrow> state" where
  "check_limits L temperature_p humidity_p s =
     (let s1 = (if is_set (TEMP_LIMIT_MAX L) \<and>
                   limit_value (TEMP_LIMIT_MAX L) < temperature_p then
                  s\<lparr>temp_exceeded_dir := 1, current_animation := 1\<rparr>
                else if is_set (TEMP_LIMIT_MIN L) \<and>
                        temperature_p < limit_value (TEMP_LIMIT_MIN L) then
                  s\<lparr>temp_exceeded_dir := - 1, current_animation := 1\<rparr>
                else s\<lparr>temp_exceeded_dir := 0\<rparr>);
          s2 = (if is_set (HUM_LIMIT_MAX L) \<and>
                   limit_value (HUM_LIMIT_MAX L) < humidity_p then
                  s1\<lparr>hum_exceeded_dir := 1, current_animation := 1\<rparr>
                else if is_set (HUM_LIMIT_MIN L) \<and>
                        humidity_p < limit_value (HUM_LIMIT_MIN L) then
                  s1\<lparr>hum_exceeded_dir := - 1, current_animation := 1\<rparr>
                else s1\<lparr>hum_exceeded_dir := 0\<rparr>)
      in if sint (hum_exceeded_dir s2) = 0 \<and> sint (temp_exceeded_dir s2) = 0 then
           s2\<lparr>current_animation := 0\<rparr>
         else s2)"

definition adjust_extremes :: "int \<Rightarrow> int \<Rightarrow> state \<Rightarrow> state" where
  "adjust_extremes temperature_p humidity_p s =
     (let s1 = (if sint (temperature_max s) < temperature_p then
                  s\<lparr>temperature_max := word_of_int temperature_p\<rparr> else s);
          s2 = (if sint (temperature_min s1) > temperature_p then
                  s1\<lparr>temperature_min := word_of_int temperature_p\<rparr> else s1);
          s3 = (if sint (humidity_max s2) < humidity_p then
                  s2\<lparr>humidity_max := word_of_int humidity_p\<rparr> else s2)
      in if sint (humidity_min s3) > humidity_p then
           s3\<lparr>humidity_min := word_of_int humidity_p\<rparr>
         else s3)"

definition checkStats :: "limits \<Rightarrow> int \<Rightarrow> int \<Rightarrow> state \<Rightarrow> state" where
  "checkStats L temperature_p humidity_p s =
     (case isNewResultValid s of
        (valid, s1) \<Rightarrow>
          if valid = 1 then
            adjust_extremes temperature_p humidity_p
              (check_limits L temperature_p humidity_p s1)
          else s1)"

text \<open>The call \<open>checkStats(temperature, humidity)\<close> of line 498, on the globals.\<close>

definition checkStats_call :: "limits \<Rightarrow> state \<Rightarrow> state" where
  "checkStats_call L s = checkStats L (sint (temperature s)) (sint (humidity s)) s"

subsection \<open>The foreground program\<close>

text \<open>
  What one call of the sensor driver delivers: its return value and the contents it
  leaves in the two variables it was given the addresses of.
\<close>

record dht_result =
  dht_ret :: int
  dht_temperature :: int8_t
  dht_humidity :: int8_t

definition dht_gettemperaturehumidity :: "dht_result \<Rightarrow> state \<Rightarrow> state" where
  "dht_gettemperaturehumidity r s =
     s\<lparr>calls := calls s @ [Dht_gettemperaturehumidity],
       temperature := dht_temperature r, humidity := dht_humidity r\<rparr>"

text \<open>The test of line 488.\<close>

definition config_error :: "limits \<Rightarrow> bool" where
  "config_error L \<longleftrightarrow>
     exceeds (TEMP_LIMIT_MIN L) (TEMP_LIMIT_MAX L) \<or>
     exceeds (HUM_LIMIT_MIN L) (HUM_LIMIT_MAX L)"

text \<open>
  The set-up part of \<open>main\<close> (lines 457 to 483). The writes to the port and timer
  registers are not driver calls and leave no entry in the trace; with the timer
  started and \<open>sei()\<close> executed, timer overflows are served from here on.
\<close>

definition main_setup :: "state \<Rightarrow> state" where
  "main_setup s =
     s\<lparr>calls := calls s @
         [Lcd_init, Lcd_clrscr, Lcd_goto 0,
          Max7219_init, Max7219_shutdown 0 1, Max7219_test 0 0, Max7219_decode 0 0,
          Max7219_intensity 0 15, Max7219_scanlimit 0 7] @
         map (\<lambda>column. Max7219_digit 0 column 0) [0 ..< 8],
       interrupts := True\<rparr>"

text \<open>\<open>main\<close> up to the point where it enters one of its two endless loops.\<close>

definition main_boot :: "limits \<Rightarrow> state" where
  "main_boot L =
     (let s = main_setup power_up
      in if config_error L then
           s\<lparr>calls := calls s @
               [Lcd_puts ''Config error:'', Lcd_goto 0x40, Lcd_puts ''Limit MIN > MAX''],
             current_animation := 1\<rparr>
         else s)"

text \<open>
  One turn of the loop \<open>main\<close> is in: the empty loop after a configuration error, the
  polling loop otherwise.
\<close>

definition main_loop :: "limits \<Rightarrow> dht_result \<Rightarrow> state \<Rightarrow> state" where
  "main_loop L r s =
     (if config_error L then s
      else
        (let s1 = dht_gettemperaturehumidity r s
         in if dht_ret r \<noteq> - 1 then checkStats_call L s1
            else
              s1\<lparr>calls := calls s1 @
                   [Lcd_puts ''Input Error:'', Lcd_goto 0x40, Lcd_puts ''Bad sensor data.''],
                 current_animation := 1\<rparr>))"

subsection \<open>Runs of the firmware\<close>

text \<open>
  The handler runs to completion; it writes \<open>display_step\<close>, \<open>last_animation_done\<close> and
  the drivers only, none of which the foreground program reads. A run is taken as a
  sequence of timer overflows and whole loop turns; an overflow is served only while
  interrupts are on.
\<close>

datatype event = Timer1_overflow | Loop_turn dht_result

fun exec :: "limits \<Rightarrow> event \<Rightarrow> state \<Rightarrow> error + state" where
  "exec L Timer1_overflow s = (if interrupts s then ISR L s else Inr s)"
| "exec L (Loop_turn r) s = Inr (main_loop L r s)"

fun run :: "limits \<Rightarrow> event list \<Rightarrow> state \<Rightarrow> error + state" where
  "run L [] s = Inr s"
| "run L (e # es) s = (case exec L e s of Inl err \<Rightarrow> Inl err | Inr s1 \<Rightarrow> run L es s1)"

definition firmware :: "limits \<Rightarrow> event list \<Rightarrow> error + state" where
  "firmware L es = run L es (main_boot L)"

subsection \<open>The validator on a sequence of samples\<close>

text \<open>
  \<open>validator_run\<close> calls \<open>isNewResultValid\<close> once per sample, each time after the
  sample has been stored in the globals, and collects the return values.
  \<open>plausible\<close> is the specification's rule in its own words: the first sample is
  accepted, a later one if and only if both of its values are within 5 of the last
  accepted sample.
\<close>

fun validator_run :: "state \<Rightarrow> (int8_t \<times> int8_t) list \<Rightarrow> int list" where
  "validator_run s [] = []"
| "validator_run s (x # xs) =
     (case isNewResultValid (s\<lparr>temperature := fst x, humidity := snd x\<rparr>) of
        (valid, s1) \<Rightarrow> valid # validator_run s1 xs)"

fun plausible :: "(int \<times> int) option \<Rightarrow> (int \<times> int) list \<Rightarrow> bool list" where
  "plausible last_accepted [] = []"
| "plausible None (b # bs) = True # plausible (Some b) bs"
| "plausible (Some a) (b # bs) =
     (if \<bar>fst b - fst a\<bar> \<le> 5 \<and> \<bar>snd b - snd a\<bar> \<le> 5
      then True # plausible (Some b) bs
      else False # plausible (Some a) bs)"

definition sample_of :: "int8_t \<times> int8_t \<Rightarrow> int \<times> int" where
  "sample_of x = (sint (fst x), sint (snd x))"

definition verdict :: "bool \<Rightarrow> int" where
  "verdict b = (if b then 1 else 0)"

subsection \<open>Directions in the specification's words\<close>

datatype direction = Under | Nominal | Over

definition bound :: "limit \<Rightarrow> int option" where
  "bound l = (case l of NULL \<Rightarrow> None | Integer n \<Rightarrow> if n = 0 then None else Some n)"

definition above :: "int option \<Rightarrow> int \<Rightarrow> bool" where
  "above upper v = (case upper of None \<Rightarrow> False | Some u \<Rightarrow> u < v)"

definition below :: "int option \<Rightarrow> int \<Rightarrow> bool" where
  "below lower v = (case lower of None \<Rightarrow> False | Some l \<Rightarrow> v < l)"

definition classify :: "int option \<Rightarrow> int option \<Rightarrow> int \<Rightarrow> direction" where
  "classify lower upper v =
     (if above upper v then Over else if below lower v then Under else Nominal)"

fun dir_code :: "direction \<Rightarrow> int8_t" where
  "dir_code Over = 1"
| "dir_code Under = - 1"
| "dir_code Nominal = 0"

subsection \<open>Sample inputs\<close>

definition sensor_ok :: "int8_t \<Rightarrow> int8_t \<Rightarrow> dht_result" where
  "sensor_ok t h = \<lparr>dht_ret = 0, dht_temperature = t, dht_humidity = h\<rparr>"

definition sensor_failed :: "int8_t \<Rightarrow> int8_t \<Rightarrow> dht_result" where
  "sensor_failed t h = \<lparr>dht_ret = - 1, dht_temperature = t, dht_humidity = h\<rparr>"

definition inverted_limits :: limits where
  "inverted_limits =
     \<lparr>TEMP_LIMIT_MIN = Integer 30, TEMP_LIMIT_MAX = Integer 20,
      HUM_LIMIT_MIN = Integer 20, HUM_LIMIT_MAX = Integer 50\<rparr>"

definition no_upper_limits :: limits where
  "no_upper_limits =
     \<lparr>TEMP_LIMIT_MIN = Integer (- 10), TEMP_LIMIT_MAX = NULL,
      HUM_LIMIT_MIN = Integer (- 10), HUM_LIMIT_MAX = NULL\<rparr>"

subsection \<open>States the firmware can be in\<close>

text \<open>
  The values the flags, the step counter and the trace take in the course of a run
  (shown below to hold after every event).
\<close>

definition wellformed :: "state \<Rightarrow> bool" where
  "wellformed s \<longleftrightarrow>
     (temp_exceeded_dir s = 0 \<or> temp_exceeded_dir s = 1 \<or> temp_exceeded_dir s = - 1) \<and>
     (hum_exceeded_dir s = 0 \<or> hum_exceeded_dir s = 1 \<or> hum_exceeded_dir s = - 1) \<and>
     (current_animation s = 0 \<or> current_animation s = 1) \<and>
     last_animation_done s = 1 \<and>
     (display_step s = 0 \<or> display_step s = 1 \<or> display_step s = 2 \<or>
      display_step s = 3 \<or> display_step s = 4) \<and>
     interrupts s \<and>
     MatrixDisplay_animate LEDMATRIX_HEART 1 \<notin> set (calls s)"

text \<open>
  Further inputs used to evaluate the statements below: the run that brings the step
  counter to 4 with a humidity maximum above the current sample, the state after a
  first accepted sample, the state in which a second sample has just been read, and
  four states in which a limit is exceeded.
\<close>

definition history_events :: "event list" where
  "history_events =
     [Loop_turn (sensor_ok 25 40), Loop_turn (sensor_ok 25 44), Loop_turn (sensor_ok 25 40),
      Timer1_overflow, Timer1_overflow, Timer1_overflow, Timer1_overflow]"

definition after_first_sample :: state where
  "after_first_sample = main_loop shipped_limits (sensor_ok 29 48) (main_boot shipped_limits)"

definition second_sample_read :: state where
  "second_sample_read = dht_gettemperaturehumidity (sensor_ok 33 52) after_first_sample"

definition temperature_over :: state where
  "temperature_over = main_loop shipped_limits (sensor_ok 31 40) (main_boot shipped_limits)"

definition humidity_under :: state where
  "humidity_under =
     (main_loop shipped_limits (sensor_ok 25 19) (main_boot shipped_limits))\<lparr>display_step := 1\<rparr>"

definition temperature_under :: state where
  "temperature_under = main_loop shipped_limits (sensor_ok (- 5) 40) (main_boot shipped_limits)"

definition humidity_over :: state where
  "humidity_over =
     (main_loop shipped_limits (sensor_ok 25 51) (main_boot shipped_limits))\<lparr>display_step := 1\<rparr>"

subsection \<open>Predicates on states and events\<close>

text \<open>
  \<open>untouched\<close>: the validator, the directions and the extremes hold their reset
  values. \<open>halted\<close>: in addition the sample is the reset one, the animation is the
  warning and the sensor driver has not been called. \<open>extremes_widen\<close>: no maximum
  has gone down and no minimum up. \<open>no_sample_yet\<close>: the event is a timer overflow or
  a loop turn whose sensor read fails.
\<close>

definition untouched :: "state \<Rightarrow> bool" where
  "untouched s \<longleftrightarrow>
     temp_exceeded_dir s = 0 \<and> hum_exceeded_dir s = 0 \<and> test_frequency s = 0 \<and>
     temperature_max s = 0 \<and> temperature_min s = 99 \<and> temperature_previous s = 0 \<and>
     humidity_max s = 0 \<and> humidity_min s = 99 \<and> humidity_previous s = 0"

definition halted :: "state \<Rightarrow> bool" where
  "halted s \<longleftrightarrow>
     untouched s \<and> temperature s = 0 \<and> humidity s = 0 \<and> current_animation s = 1 \<and>
     Dht_gettemperaturehumidity \<notin> set (calls s)"

definition extremes_widen :: "state \<Rightarrow> state \<Rightarrow> bool" where
  "extremes_widen s s' \<longleftrightarrow>
     sint (temperature_max s) \<le> sint (temperature_max s') \<and>
     sint (temperature_min s') \<le> sint (temperature_min s) \<and>
     sint (humidity_max s) \<le> sint (humidity_max s') \<and>
     sint (humidity_min s') \<le> sint (humidity_min s)"

fun no_sample_yet :: "event \<Rightarrow> bool" where
  "no_sample_yet Timer1_overflow = True"
| "no_sample_yet (Loop_turn r) = (dht_ret r = - 1)"

section \<open>Properties\<close>

subsection \<open>Frames\<close>

lemma ISR_total: "\<exists>s'. ISR L s = Inr s'"
  by (simp add: ISR_def ISR_pane_def printWarning_def split: sum.splits)

lemma ISR_pane_total: "\<exists>pane. ISR_pane L s = Inr pane"
  by (simp add: ISR_pane_def printWarning_def)

lemma ISR_frame:
  assumes "ISR L s = Inr s'"
  shows "temp_exceeded_dir s' = temp_exceeded_dir s"
    and "hum_exceeded_dir s' = hum_exceeded_dir s"
    and "current_animation s' = current_animation s"
    and "test_frequency s' = test_frequency s"
    and "temperature_max s' = temperature_max s"
    and "temperature_min s' = temperature_min s"
    and "temperature_previous s' = temperature_previous s"
    and "humidity_max s' = humidity_max s"
    and "humidity_min s' = humidity_min s"
    and "humidity_previous s' = humidity_previous s"
    and "temperature s' = temperature s"
    and "humidity s' = humidity s"
    and "interrupts s' = interrupts s"
  using assms
  by (auto simp: ISR_def ISR_animation_def ISR_step_def Let_def split: sum.splits if_splits)

lemma ISR_calls:
  assumes "ISR L s = Inr s'" and "ISR_pane L s = Inr pane"
  shows "calls s' = calls s @ pane @
           (if sint (last_animation_done s) = 1
            then [MatrixDisplay_animate (ISR_bitmap s) 1] else [])"
  using assms
  by (auto simp: ISR_def ISR_animation_def ISR_step_def ISR_bitmap_def Let_def
           split: sum.splits if_splits)

lemma isNewResultValid_frame:
  assumes "isNewResultValid s = (v, s')"
  shows "temp_exceeded_dir s' = temp_exceeded_dir s"
    and "hum_exceeded_dir s' = hum_exceeded_dir s"
    and "current_animation s' = current_animation s"
    and "last_animation_done s' = last_animation_done s"
    and "display_step s' = display_step s"
    and "temperature_max s' = temperature_max s"
    and "temperature_min s' = temperature_min s"
    and "humidity_max s' = humidity_max s"
    and "humidity_min s' = humidity_min s"
    and "temperature s' = temperature s"
    and "humidity s' = humidity s"
    and "interrupts s' = interrupts s"
    and "calls s' = calls s"
  using assms by (auto simp: isNewResultValid_def split: if_splits)

lemma isNewResultValid_rejected:
  "fst (isNewResultValid s) \<noteq> 1 \<Longrightarrow> snd (isNewResultValid s) = s"
  by (auto simp: isNewResultValid_def split: if_splits)

lemma check_limits_frame:
  "last_animation_done (check_limits L t h s) = last_animation_done s"
  "display_step (check_limits L t h s) = display_step s"
  "test_frequency (check_limits L t h s) = test_frequency s"
  "temperature_max (check_limits L t h s) = temperature_max s"
  "temperature_min (check_limits L t h s) = temperature_min s"
  "temperature_previous (check_limits L t h s) = temperature_previous s"
  "humidity_max (check_limits L t h s) = humidity_max s"
  "humidity_min (check_limits L t h s) = humidity_min s"
  "humidity_previous (check_limits L t h s) = humidity_previous s"
  "temperature (check_limits L t h s) = temperature s"
  "humidity (check_limits L t h s) = humidity s"
  "interrupts (check_limits L t h s) = interrupts s"
  "calls (check_limits L t h s) = calls s"
  by (simp_all add: check_limits_def Let_def)

lemma adjust_extremes_frame:
  "temp_exceeded_dir (adjust_extremes t h s) = temp_exceeded_dir s"
  "hum_exceeded_dir (adjust_extremes t h s) = hum_exceeded_dir s"
  "current_animation (adjust_extremes t h s) = current_animation s"
  "last_animation_done (adjust_extremes t h s) = last_animation_done s"
  "display_step (adjust_extremes t h s) = display_step s"
  "test_frequency (adjust_extremes t h s) = test_frequency s"
  "temperature_previous (adjust_extremes t h s) = temperature_previous s"
  "humidity_previous (adjust_extremes t h s) = humidity_previous s"
  "temperature (adjust_extremes t h s) = temperature s"
  "humidity (adjust_extremes t h s) = humidity s"
  "interrupts (adjust_extremes t h s) = interrupts s"
  "calls (adjust_extremes t h s) = calls s"
  by (simp_all add: adjust_extremes_def Let_def)

lemma adjust_extremes_sint:
  fixes t h :: int8_t
  shows "sint (temperature_max (adjust_extremes (sint t) (sint h) s)) = max (sint (temperature_max s)) (sint t)"
    and "sint (temperature_min (adjust_extremes (sint t) (sint h) s)) = min (sint (temperature_min s)) (sint t)"
    and "sint (humidity_max (adjust_extremes (sint t) (sint h) s)) = max (sint (humidity_max s)) (sint h)"
    and "sint (humidity_min (adjust_extremes (sint t) (sint h) s)) = min (sint (humidity_min s)) (sint h)"
  by (simp_all add: adjust_extremes_def Let_def)

lemma check_limits_dirs:
  "temp_exceeded_dir (check_limits L t h s) =
     dir_code (classify (bound (TEMP_LIMIT_MIN L)) (bound (TEMP_LIMIT_MAX L)) t)"
  "hum_exceeded_dir (check_limits L t h s) =
     dir_code (classify (bound (HUM_LIMIT_MIN L)) (bound (HUM_LIMIT_MAX L)) h)"
  by (cases "TEMP_LIMIT_MIN L"; cases "TEMP_LIMIT_MAX L";
      cases "HUM_LIMIT_MIN L"; cases "HUM_LIMIT_MAX L";
      simp add: check_limits_def Let_def classify_def bound_def above_def below_def)+

lemma check_limits_animation:
  "current_animation (check_limits L t h s) =
     (if temp_exceeded_dir (check_limits L t h s) = 0 \<and>
         hum_exceeded_dir (check_limits L t h s) = 0 then 0 else 1)"
  by (simp add: check_limits_def Let_def)

lemma checkStats_accepted:
  "fst (isNewResultValid s) = 1 \<Longrightarrow>
   checkStats L t h s = adjust_extremes t h (check_limits L t h (snd (isNewResultValid s)))"
  by (cases "isNewResultValid s") (simp add: checkStats_def)

lemma checkStats_rejected:
  "fst (isNewResultValid s) \<noteq> 1 \<Longrightarrow> checkStats L t h s = s"
  using isNewResultValid_rejected [of s]
  by (cases "isNewResultValid s") (simp add: checkStats_def)

subsection \<open>One event\<close>

text \<open>
  The test of line 488 where a limit is \<open>NULL\<close>: a missing lower limit never is an
  error, also beside a negative upper limit; a missing upper limit is one beside
  every lower limit other than \<open>NULL\<close> and 0.
\<close>

lemma config_error_NULL:
  "\<not> config_error \<lparr>TEMP_LIMIT_MIN = NULL, TEMP_LIMIT_MAX = Integer (- 5),
                     HUM_LIMIT_MIN = NULL, HUM_LIMIT_MAX = Integer 50\<rparr>"
  "config_error \<lparr>TEMP_LIMIT_MIN = Integer (- 10), TEMP_LIMIT_MAX = NULL,
                  HUM_LIMIT_MIN = NULL, HUM_LIMIT_MAX = NULL\<rparr>"
  "config_error \<lparr>TEMP_LIMIT_MIN = Integer 20, TEMP_LIMIT_MAX = NULL,
                  HUM_LIMIT_MIN = NULL, HUM_LIMIT_MAX = NULL\<rparr>"
  "\<not> config_error \<lparr>TEMP_LIMIT_MIN = NULL, TEMP_LIMIT_MAX = NULL,
                     HUM_LIMIT_MIN = Integer 0, HUM_LIMIT_MAX = NULL\<rparr>"
  "config_error \<lparr>TEMP_LIMIT_MIN = Integer 0, TEMP_LIMIT_MAX = Integer (- 5),
                  HUM_LIMIT_MIN = NULL, HUM_LIMIT_MAX = NULL\<rparr>"
  by (simp_all add: config_error_def)

lemma main_loop_halted: "config_error L \<Longrightarrow> main_loop L r s = s"
  by (simp add: main_loop_def)

lemma main_loop_failed:
  "\<not> config_error L \<Longrightarrow> dht_ret r = - 1 \<Longrightarrow>
   main_loop L r s =
     s\<lparr>calls := calls s @ [Dht_gettemperaturehumidity, Lcd_puts ''Input Error:'',
                            Lcd_goto 0x40, Lcd_puts ''Bad sensor data.''],
       temperature := dht_temperature r, humidity := dht_humidity r,
       current_animation := 1\<rparr>"
  by (simp add: main_loop_def dht_gettemperaturehumidity_def Let_def)

lemma main_loop_ok:
  "\<not> config_error L \<Longrightarrow> dht_ret r \<noteq> - 1 \<Longrightarrow>
   main_loop L r s = checkStats_call L (dht_gettemperaturehumidity r s)"
  by (simp add: main_loop_def Let_def)

lemma checkStats_call_cases:
  "checkStats_call L s = s \<or>
   checkStats_call L s =
     adjust_extremes (sint (temperature s)) (sint (humidity s))
       (check_limits L (sint (temperature s)) (sint (humidity s)) (snd (isNewResultValid s)))"
  by (cases "fst (isNewResultValid s) = 1")
     (simp_all add: checkStats_call_def checkStats_accepted checkStats_rejected)

subsection \<open>Invariants of runs\<close>

lemma dir_code_cases: "dir_code d = 0 \<or> dir_code d = 1 \<or> dir_code d = - 1"
  by (cases d) simp_all

lemma pane_no_animation:
  "ISR_pane L s = Inr pane \<Longrightarrow> MatrixDisplay_animate b n \<notin> set pane"
  by (auto simp: ISR_pane_def printWarning_def printTempHum_Current_def
        printTemp_History_def printHum_History_def split: if_splits)

lemma wellformed_boot: "wellformed (main_boot L)"
  by (auto simp: wellformed_def main_boot_def main_setup_def power_up_def Let_def)

lemma ISR_step_range:
  assumes "display_step s = 0 \<or> display_step s = 1 \<or> display_step s = 2 \<or>
           display_step s = 3 \<or> display_step s = 4"
  shows "display_step (ISR_step s) = 0 \<or> display_step (ISR_step s) = 1 \<or>
         display_step (ISR_step s) = 2 \<or> display_step (ISR_step s) = 3 \<or>
         display_step (ISR_step s) = 4"
  using assms by (auto simp: ISR_step_def Let_def)

lemma wellformed_ISR:
  assumes "wellformed s" and "ISR L s = Inr s'"
  shows "wellformed s'"
proof -
  obtain pane where pane: "ISR_pane L s = Inr pane"
    using ISR_pane_total by blast
  have flag: "sint (last_animation_done s) = 1"
    using assms(1) by (simp add: wellformed_def)
  have s': "s' = ISR_animation (ISR_step (s\<lparr>calls := calls s @ pane\<rparr>))"
    using assms(2) pane by (simp add: ISR_def)
  have bitmap: "ISR_bitmap s \<noteq> LEDMATRIX_HEART"
    using assms(1)
    by (auto simp: wellformed_def ISR_bitmap_def LEDMATRIX_CHECK_def LEDMATRIX_WARNING_def
          LEDMATRIX_HEART_def)
  have c: "calls s' = calls s @ pane @ [MatrixDisplay_animate (ISR_bitmap s) 1]"
    using ISR_calls [OF assms(2) pane] flag by simp
  have step: "display_step s' = display_step (ISR_step s)"
    by (simp add: s' ISR_animation_def ISR_step_def Let_def)
  have lad: "last_animation_done s' = 1"
    using flag by (simp add: s' ISR_animation_def ISR_step_def Let_def)
  show ?thesis
    using assms(1) ISR_frame [OF assms(2)] c bitmap lad pane_no_animation [OF pane]
      ISR_step_range [of s]
    by (simp add: wellformed_def step)
qed

lemma wellformed_checkStats_call:
  assumes "wellformed s"
  shows "wellformed (checkStats_call L s)"
proof -
  let ?t = "sint (temperature s)" and ?h = "sint (humidity s)"
  let ?s1 = "snd (isNewResultValid s)"
  have f: "isNewResultValid s = (fst (isNewResultValid s), ?s1)" by simp
  have "wellformed (adjust_extremes ?t ?h (check_limits L ?t ?h ?s1))"
    using assms isNewResultValid_frame [OF f]
      dir_code_cases [of "classify (bound (TEMP_LIMIT_MIN L)) (bound (TEMP_LIMIT_MAX L)) ?t"]
      dir_code_cases [of "classify (bound (HUM_LIMIT_MIN L)) (bound (HUM_LIMIT_MAX L)) ?h"]
    by (simp add: wellformed_def adjust_extremes_frame check_limits_frame check_limits_dirs
          check_limits_animation)
  then show ?thesis
    using checkStats_call_cases [of L s] assms by auto
qed

lemma wellformed_main_loop:
  assumes "wellformed s"
  shows "wellformed (main_loop L r s)"
proof (cases "config_error L")
  case True
  then show ?thesis using assms by (simp add: main_loop_halted)
next
  case False
  show ?thesis
  proof (cases "dht_ret r = - 1")
    case True
    then show ?thesis
      using assms \<open>\<not> config_error L\<close> by (simp add: main_loop_failed wellformed_def)
  next
    case ok: False
    have "wellformed (dht_gettemperaturehumidity r s)"
      using assms by (simp add: wellformed_def dht_gettemperaturehumidity_def)
    then show ?thesis
      using False ok by (simp add: main_loop_ok wellformed_checkStats_call)
  qed
qed

text \<open>
  The same holds after each block of a loop turn and after each single assignment to
  a direction or to the animation selector, so a timer overflow that arrives in the
  middle of a loop turn finds these values in the same ranges.
\<close>

lemma wellformed_between_statements:
  assumes "wellformed s"
  shows "wellformed (dht_gettemperaturehumidity r s)"
    and "wellformed (snd (isNewResultValid s))"
    and "wellformed (check_limits L t h s)"
    and "wellformed (adjust_extremes t h s)"
    and "wellformed (s\<lparr>temp_exceeded_dir := 1\<rparr>)"
    and "wellformed (s\<lparr>temp_exceeded_dir := - 1\<rparr>)"
    and "wellformed (s\<lparr>temp_exceeded_dir := 0\<rparr>)"
    and "wellformed (s\<lparr>hum_exceeded_dir := 1\<rparr>)"
    and "wellformed (s\<lparr>hum_exceeded_dir := - 1\<rparr>)"
    and "wellformed (s\<lparr>hum_exceeded_dir := 0\<rparr>)"
    and "wellformed (s\<lparr>current_animation := 1\<rparr>)"
    and "wellformed (s\<lparr>current_animation := 0\<rparr>)"
proof -
  have f: "isNewResultValid s = (fst (isNewResultValid s), snd (isNewResultValid s))" by simp
  show "wellformed (snd (isNewResultValid s))"
    using assms isNewResultValid_frame [OF f] by (simp add: wellformed_def)
  show "wellformed (check_limits L t h s)"
    using assms
      dir_code_cases [of "classify (bound (TEMP_LIMIT_MIN L)) (bound (TEMP_LIMIT_MAX L)) t"]
      dir_code_cases [of "classify (bound (HUM_LIMIT_MIN L)) (bound (HUM_LIMIT_MAX L)) h"]
    by (simp add: wellformed_def check_limits_frame check_limits_dirs check_limits_animation)
  show "wellformed (adjust_extremes t h s)"
    using assms by (simp add: wellformed_def adjust_extremes_frame)
  show "wellformed (dht_gettemperaturehumidity r s)"
    using assms by (simp add: wellformed_def dht_gettemperaturehumidity_def)
qed (use assms in \<open>simp_all add: wellformed_def\<close>)

lemma wellformed_exec:
  "wellformed s \<Longrightarrow> exec L e s = Inr s' \<Longrightarrow> wellformed s'"
  by (cases e) (auto simp: wellformed_ISR wellformed_main_loop split: if_splits)

lemma exec_total: "\<exists>s'. exec L e s = Inr s'"
  using ISR_total [of L s] by (cases e) auto

lemma run_total: "\<exists>s'. run L es s = Inr s'"
proof (induction es arbitrary: s)
  case Nil
  show ?case by simp
next
  case (Cons e es)
  obtain s1 where "exec L e s = Inr s1" using exec_total by blast
  then show ?case using Cons.IH [of s1] by simp
qed

lemma run_wellformed: "wellformed s \<Longrightarrow> run L es s = Inr s' \<Longrightarrow> wellformed s'"
proof (induction es arbitrary: s)
  case Nil
  then show ?case by simp
next
  case (Cons e es)
  obtain s1 where s1: "exec L e s = Inr s1" using exec_total by blast
  with Cons.prems have "run L es s1 = Inr s'" by simp
  moreover have "wellformed s1" using Cons.prems(1) s1 by (rule wellformed_exec)
  ultimately show ?case by (rule Cons.IH [rotated])
qed

lemma firmware_wellformed: "\<exists>s. firmware L es = Inr s \<and> wellformed s"
  using run_total [of L es "main_boot L"] run_wellformed [OF wellformed_boot]
  by (auto simp: firmware_def)

subsection \<open>Runs without an accepted sample\<close>

lemma run_append:
  "run L (es @ es') s = (case run L es s of Inl e \<Rightarrow> Inl e | Inr s1 \<Rightarrow> run L es' s1)"
  by (induction es arbitrary: s) (auto split: sum.splits)

lemma untouched_boot: "untouched (main_boot L)"
  by (simp add: untouched_def main_boot_def main_setup_def power_up_def Let_def)

lemma untouched_exec:
  assumes "untouched s" and "exec L e s = Inr s'" and "no_sample_yet e \<or> config_error L"
  shows "untouched s'"
proof (cases e)
  case Timer1_overflow
  then show ?thesis
    using assms(1,2) by (auto simp: untouched_def ISR_frame split: if_splits)
next
  case (Loop_turn r)
  show ?thesis
  proof (cases "config_error L")
    case True
    then show ?thesis using assms(1,2) Loop_turn by (simp add: main_loop_halted)
  next
    case False
    then have "dht_ret r = - 1" using assms(3) Loop_turn by simp
    then show ?thesis
      using assms(1,2) Loop_turn False by (auto simp: main_loop_failed untouched_def)
  qed
qed

lemma untouched_run:
  "untouched s \<Longrightarrow> run L es s = Inr s' \<Longrightarrow> list_all no_sample_yet es \<or> config_error L \<Longrightarrow>
   untouched s'"
proof (induction es arbitrary: s)
  case Nil
  then show ?case by simp
next
  case (Cons e es)
  obtain s1 where s1: "exec L e s = Inr s1" using exec_total by blast
  have "untouched s1"
    using Cons.prems(1) s1 Cons.prems(3) by (auto intro: untouched_exec)
  moreover have "run L es s1 = Inr s'" using Cons.prems(2) s1 by simp
  moreover have "list_all no_sample_yet es \<or> config_error L" using Cons.prems(3) by auto
  ultimately show ?case by (rule Cons.IH)
qed

subsection \<open>The stored extremes\<close>

lemma checkStats_call_extremes_accepted:
  assumes "fst (isNewResultValid s) = 1"
  shows "sint (temperature_max (checkStats_call L s)) =
           max (sint (temperature_max s)) (sint (temperature s))"
    and "sint (temperature_min (checkStats_call L s)) =
           min (sint (temperature_min s)) (sint (temperature s))"
    and "sint (humidity_max (checkStats_call L s)) =
           max (sint (humidity_max s)) (sint (humidity s))"
    and "sint (humidity_min (checkStats_call L s)) =
           min (sint (humidity_min s)) (sint (humidity s))"
proof -
  have f: "isNewResultValid s = (fst (isNewResultValid s), snd (isNewResultValid s))" by simp
  show "sint (temperature_max (checkStats_call L s)) =
           max (sint (temperature_max s)) (sint (temperature s))"
    and "sint (temperature_min (checkStats_call L s)) =
           min (sint (temperature_min s)) (sint (temperature s))"
    and "sint (humidity_max (checkStats_call L s)) =
           max (sint (humidity_max s)) (sint (humidity s))"
    and "sint (humidity_min (checkStats_call L s)) =
           min (sint (humidity_min s)) (sint (humidity s))"
    using assms isNewResultValid_frame [OF f]
    by (simp_all add: checkStats_call_def checkStats_accepted adjust_extremes_sint
          check_limits_frame)
qed

lemma extremes_widen_checkStats_call: "extremes_widen s (checkStats_call L s)"
proof (cases "fst (isNewResultValid s) = 1")
  case True
  then show ?thesis
    by (simp add: extremes_widen_def checkStats_call_extremes_accepted)
next
  case False
  then show ?thesis
    by (simp add: extremes_widen_def checkStats_call_def checkStats_rejected)
qed

lemma extremes_widen_exec:
  assumes "exec L e s = Inr s'"
  shows "extremes_widen s s'"
proof (cases e)
  case Timer1_overflow
  then show ?thesis
    using assms by (auto simp: extremes_widen_def ISR_frame split: if_splits)
next
  case (Loop_turn r)
  have w: "extremes_widen s (checkStats_call L (dht_gettemperaturehumidity r s))"
    using extremes_widen_checkStats_call [of "dht_gettemperaturehumidity r s" L]
    by (simp add: extremes_widen_def dht_gettemperaturehumidity_def)
  show ?thesis
  proof (cases "config_error L")
    case True
    then show ?thesis using assms Loop_turn by (auto simp: main_loop_halted extremes_widen_def)
  next
    case False
    then show ?thesis
      using assms Loop_turn w
      by (cases "dht_ret r = - 1") (auto simp: main_loop_failed main_loop_ok extremes_widen_def)
  qed
qed

lemma extremes_widen_run: "run L es s = Inr s' \<Longrightarrow> extremes_widen s s'"
proof (induction es arbitrary: s)
  case Nil
  then show ?case by (simp add: extremes_widen_def)
next
  case (Cons e es)
  obtain s1 where s1: "exec L e s = Inr s1" using exec_total by blast
  then have "run L es s1 = Inr s'" using Cons.prems by simp
  from Cons.IH [OF this] extremes_widen_exec [OF s1] show ?case
    by (auto simp: extremes_widen_def)
qed

lemma first_sample_state:
  assumes "list_all no_sample_yet es" and "\<not> config_error L" and "dht_ret r \<noteq> - 1"
    and "firmware L (es @ [Loop_turn r]) = Inr s'"
  shows "sint (temperature_max s') = max 0 (sint (dht_temperature r))"
    and "sint (temperature_min s') = min 99 (sint (dht_temperature r))"
    and "sint (humidity_max s') = max 0 (sint (dht_humidity r))"
    and "sint (humidity_min s') = min 99 (sint (dht_humidity r))"
proof -
  obtain s where s: "run L es (main_boot L) = Inr s" using run_total by blast
  have u: "untouched s"
    using untouched_boot s assms(1) by (auto intro: untouched_run)
  let ?s1 = "dht_gettemperaturehumidity r s"
  have s': "s' = checkStats_call L ?s1"
    using assms(2,3,4) s by (simp add: firmware_def run_append main_loop_ok)
  have acc: "fst (isNewResultValid ?s1) = 1"
    using u by (simp add: untouched_def isNewResultValid_def dht_gettemperaturehumidity_def)
  show "sint (temperature_max s') = max 0 (sint (dht_temperature r))"
    and "sint (temperature_min s') = min 99 (sint (dht_temperature r))"
    and "sint (humidity_max s') = max 0 (sint (dht_humidity r))"
    and "sint (humidity_min s') = min 99 (sint (dht_humidity r))"
    using u unfolding s' checkStats_call_extremes_accepted [OF acc]
    by (simp_all add: untouched_def dht_gettemperaturehumidity_def)
qed

subsection \<open>After a configuration error\<close>

lemma pane_no_sensor:
  "ISR_pane L s = Inr pane \<Longrightarrow> Dht_gettemperaturehumidity \<notin> set pane"
  by (auto simp: ISR_pane_def printWarning_def printTempHum_Current_def
        printTemp_History_def printHum_History_def split: if_splits)

lemma halted_boot: "config_error L \<Longrightarrow> halted (main_boot L)"
  by (auto simp: halted_def untouched_def main_boot_def main_setup_def power_up_def Let_def)

lemma halted_exec:
  assumes "config_error L" and "halted s" and "exec L e s = Inr s'"
  shows "halted s'"
proof (cases e)
  case Timer1_overflow
  show ?thesis
  proof (cases "interrupts s")
    case True
    then have isr: "ISR L s = Inr s'" using assms(3) Timer1_overflow by simp
    obtain pane where pane: "ISR_pane L s = Inr pane" using ISR_pane_total by blast
    show ?thesis
      using assms(2) ISR_frame [OF isr] ISR_calls [OF isr pane] pane_no_sensor [OF pane]
      by (simp add: halted_def untouched_def)
  next
    case False
    then show ?thesis using assms(2,3) Timer1_overflow by simp
  qed
next
  case (Loop_turn r)
  then show ?thesis using assms by (simp add: main_loop_halted)
qed

lemma halted_run:
  "config_error L \<Longrightarrow> halted s \<Longrightarrow> run L es s = Inr s' \<Longrightarrow> halted s'"
proof (induction es arbitrary: s)
  case Nil
  then show ?case by simp
next
  case (Cons e es)
  obtain s1 where s1: "exec L e s = Inr s1" using exec_total by blast
  have "halted s1" using Cons.prems(1,2) s1 by (rule halted_exec)
  moreover have "run L es s1 = Inr s'" using Cons.prems(3) s1 by simp
  ultimately show ?case using Cons.IH [OF Cons.prems(1)] by blast
qed

lemma halted_tick:
  assumes "halted s" and "wellformed s"
  shows "\<exists>s'. exec L Timer1_overflow s = Inr s' \<and>
     calls s' = calls s @
       (if sint (display_step s) \<le> 2 then printTempHum_Current 0 0
        else if sint (display_step s) = 3 then printTemp_History 0 99
        else printHum_History 0 99) @
       [MatrixDisplay_animate LEDMATRIX_WARNING 1]"
proof -
  obtain s' where isr: "ISR L s = Inr s'" using ISR_total by blast
  have pane: "ISR_pane L s = Inr
       (if sint (display_step s) \<le> 2 then printTempHum_Current 0 0
        else if sint (display_step s) = 3 then printTemp_History 0 99
        else printHum_History 0 99)"
    using assms by (auto simp: halted_def untouched_def wellformed_def ISR_pane_def)
  have "ISR_bitmap s = LEDMATRIX_WARNING" "sint (last_animation_done s) = 1" "interrupts s"
    using assms by (simp_all add: halted_def wellformed_def ISR_bitmap_def)
  then show ?thesis
    using isr ISR_calls [OF isr pane] by simp
qed

subsection \<open>The validator after its first call\<close>

lemma validator_run_later:
  "1 \<le> sint (test_frequency s) \<Longrightarrow>
   validator_run s xs =
     map verdict
       (plausible (Some (sint (temperature_previous s), sint (humidity_previous s)))
          (map sample_of xs))"
proof (induction xs arbitrary: s)
  case Nil
  show ?case by simp
next
  case (Cons x xs)
  let ?s0 = "s\<lparr>temperature := fst x, humidity := snd x\<rparr>"
  show ?case
  proof (cases "\<bar>sint (fst x) - sint (temperature_previous s)\<bar> \<le> 5 \<and>
                \<bar>sint (snd x) - sint (humidity_previous s)\<bar> \<le> 5")
    case True
    then have v: "isNewResultValid ?s0 =
        (1, ?s0\<lparr>temperature_previous := fst x, humidity_previous := snd x\<rparr>)"
      using Cons.prems by (auto simp: isNewResultValid_def)
    have "1 \<le> sint (test_frequency (?s0\<lparr>temperature_previous := fst x, humidity_previous := snd x\<rparr>))"
      using Cons.prems by simp
    from Cons.IH [OF this] True v show ?thesis
      by (simp add: sample_of_def verdict_def)
  next
    case False
    then have v: "isNewResultValid ?s0 = (0, ?s0)"
      using Cons.prems by (auto simp: isNewResultValid_def)
    have "1 \<le> sint (test_frequency ?s0)"
      using Cons.prems by simp
    from Cons.IH [OF this] False v show ?thesis
      by (simp add: sample_of_def verdict_def)
  qed
qed

subsection \<open>Unfolding for concrete inputs\<close>

lemmas eval_defs =
  main_loop_def main_boot_def main_setup_def power_up_def config_error_def
  dht_gettemperaturehumidity_def checkStats_call_def checkStats_def isNewResultValid_def
  check_limits_def adjust_extremes_def Let_def shipped_limits_def
  sensor_ok_def sensor_failed_def inverted_limits_def no_upper_limits_def

lemmas sample_defs = after_first_sample_def second_sample_read_def

section \<open>The claims\<close>

text \<open>
  C1 (at step 4 the pane shows the humidity maximum and minimum). The handler calls
  \<open>printHum_History(humidity, humidity_min)\<close>: the current sample stands where the
  maximum belongs. With the shipped limits, after the accepted samples (25, 40),
  (25, 44), (25, 40) and four timer overflows the step counter is 4, the stored
  maximum is 44 and the current humidity 40; the pane of the next overflow reads
  "Min 40% Max 40%". The comment above the call and the temperature pane of step 3
  (called with \<open>temperature_max\<close>) both ask for the maximum.
\<close>

theorem humidity_history_shows_current_sample:
  "map_sum id display_step (firmware shipped_limits history_events) = Inr 4 \<and>
   map_sum id humidity_max (firmware shipped_limits history_events) = Inr 44 \<and>
   map_sum id humidity_min (firmware shipped_limits history_events) = Inr 40 \<and>
   map_sum id humidity (firmware shipped_limits history_events) = Inr 40 \<and>
   map_sum id (ISR_pane shipped_limits) (firmware shipped_limits history_events) =
     Inr (Inr [Lcd_goto 0, Lcd_puts ''Hum. history:    '', Lcd_goto 0x40, Lcd_puts ''Min '',
               Lcd_puts ''40'', Lcd_puts ''% Max '', Lcd_puts ''40'', Lcd_puts ''%   ''])"
  by (simp add: firmware_def history_events_def eval_defs ISR_def ISR_pane_def ISR_step_def
        ISR_animation_def ISR_bitmap_def printHum_History_def show_int_def show_nat.simps)

text \<open>
  C2 (the validator). Started with \<open>test_frequency = 0\<close>, as at reset, the return
  values of \<open>isNewResultValid\<close> over any sequence of samples are those of
  \<open>plausible\<close>: the first sample is accepted whatever its value, and each later
  sample B is accepted exactly when \<open>\<bar>B.temp - A.temp\<bar> \<le> 5\<close> and
  \<open>\<bar>B.hum - A.hum\<bar> \<le> 5\<close> for the last accepted sample A.
\<close>

theorem validator_refines_plausible:
  assumes "test_frequency s = 0"
  shows "validator_run s xs = map verdict (plausible None (map sample_of xs))"
proof (cases xs)
  case Nil
  then show ?thesis by simp
next
  case (Cons x ys)
  let ?s1 = "s\<lparr>temperature := fst x, humidity := snd x,
               temperature_previous := fst x, humidity_previous := snd x,
               test_frequency := 1\<rparr>"
  have v: "isNewResultValid (s\<lparr>temperature := fst x, humidity := snd x\<rparr>) = (1, ?s1)"
    using assms by (simp add: isNewResultValid_def)
  have "1 \<le> sint (test_frequency ?s1)" by simp
  from validator_run_later [OF this, of ys] v Cons show ?thesis
    by (simp add: sample_of_def verdict_def)
qed

text \<open>
  A difference of exactly 5 is accepted (second, fourth and last sample), one of 6 is
  rejected (third and sixth sample).
\<close>

theorem validator_refines_plausible_witness:
  "test_frequency power_up = 0 \<and>
   validator_run power_up
     [(25, 40), (30, 45), (36, 45), (25, 40), (- 100, 127), (31, 40), (30, 39)]
     = [1, 1, 0, 1, 0, 0, 1] \<and>
   plausible None [(25, 40), (30, 45), (36, 45), (25, 40), (- 100, 127), (31, 40), (30, 39)]
     = [True, True, False, True, False, False, True]"
proof -
  have h: "test_frequency power_up = 0" by (simp add: power_up_def)
  show ?thesis
    using h validator_refines_plausible [OF h,
        of "[(25, 40), (30, 45), (36, 45), (25, 40), (- 100, 127), (31, 40), (30, 39)]"]
    by (simp add: sample_of_def verdict_def)
qed

text \<open>
  C3, as the claim is worded: the first accepted sample establishes both bounds for
  every first value. The maximum starts at 0 and the minimum at 99, so a first
  temperature of -3 leaves the maximum at 0 and a first humidity of 100 leaves the
  minimum at 99.
\<close>

theorem first_sample_below_seed_counterexample:
  "fst (isNewResultValid
         (dht_gettemperaturehumidity (sensor_ok (- 3) 40) (main_boot shipped_limits))) = 1 \<and>
   sint (temperature (main_loop shipped_limits (sensor_ok (- 3) 40) (main_boot shipped_limits)))
     = - 3 \<and>
   sint (temperature_max
           (main_loop shipped_limits (sensor_ok (- 3) 40) (main_boot shipped_limits))) = 0 \<and>
   sint (humidity (main_loop shipped_limits (sensor_ok 25 100) (main_boot shipped_limits)))
     = 100 \<and>
   sint (humidity_min
           (main_loop shipped_limits (sensor_ok 25 100) (main_boot shipped_limits))) = 99"
  by (simp add: eval_defs)

text \<open>
  C3, amended. In every run no stored maximum decreases and no stored minimum
  increases. An accepted sample moves each maximum to the larger and each minimum to
  the smaller of the stored and the new value, whatever the limits are. The first
  sample a successful read delivers establishes both bounds of an attribute when its
  value lies between 0 and 99.
\<close>

theorem extremes_follow_accepted_samples:
  "(run L es s0 = Inr s1 \<longrightarrow>
      sint (temperature_max s0) \<le> sint (temperature_max s1) \<and>
      sint (temperature_min s1) \<le> sint (temperature_min s0) \<and>
      sint (humidity_max s0) \<le> sint (humidity_max s1) \<and>
      sint (humidity_min s1) \<le> sint (humidity_min s0)) \<and>
   (fst (isNewResultValid s) = 1 \<longrightarrow>
      sint (temperature_max (checkStats_call L s)) =
        max (sint (temperature_max s)) (sint (temperature s)) \<and>
      sint (temperature_min (checkStats_call L s)) =
        min (sint (temperature_min s)) (sint (temperature s)) \<and>
      sint (humidity_max (checkStats_call L s)) =
        max (sint (humidity_max s)) (sint (humidity s)) \<and>
      sint (humidity_min (checkStats_call L s)) =
        min (sint (humidity_min s)) (sint (humidity s))) \<and>
   (list_all no_sample_yet es' \<and> \<not> config_error L \<and> dht_ret r \<noteq> - 1 \<and>
    firmware L (es' @ [Loop_turn r]) = Inr s' \<longrightarrow>
      (0 \<le> sint (dht_temperature r) \<and> sint (dht_temperature r) \<le> 99 \<longrightarrow>
         temperature_max s' = dht_temperature r \<and> temperature_min s' = dht_temperature r) \<and>
      (0 \<le> sint (dht_humidity r) \<and> sint (dht_humidity r) \<le> 99 \<longrightarrow>
         humidity_max s' = dht_humidity r \<and> humidity_min s' = dht_humidity r))"
proof -
  have a: "sint (temperature_max s0) \<le> sint (temperature_max s1) \<and>
      sint (temperature_min s1) \<le> sint (temperature_min s0) \<and>
      sint (humidity_max s0) \<le> sint (humidity_max s1) \<and>
      sint (humidity_min s1) \<le> sint (humidity_min s0)" if "run L es s0 = Inr s1"
    using extremes_widen_run [OF that] by (simp add: extremes_widen_def)
  have c: "(0 \<le> sint (dht_temperature r) \<and> sint (dht_temperature r) \<le> 99 \<longrightarrow>
         temperature_max s' = dht_temperature r \<and> temperature_min s' = dht_temperature r) \<and>
      (0 \<le> sint (dht_humidity r) \<and> sint (dht_humidity r) \<le> 99 \<longrightarrow>
         humidity_max s' = dht_humidity r \<and> humidity_min s' = dht_humidity r)"
    if "list_all no_sample_yet es'" "\<not> config_error L" "dht_ret r \<noteq> - 1"
      "firmware L (es' @ [Loop_turn r]) = Inr s'"
    using first_sample_state [OF that]
    by (auto intro!: signed_word_eqI [where ?'a = int])
  show ?thesis
    using a c by (simp add: checkStats_call_extremes_accepted)
qed

theorem extremes_follow_accepted_samples_witness:
  "run shipped_limits [Loop_turn (sensor_ok 33 52)] after_first_sample =
     Inr (checkStats_call shipped_limits second_sample_read) \<and>
   fst (isNewResultValid second_sample_read) = 1 \<and>
   sint (temp_exceeded_dir (checkStats_call shipped_limits second_sample_read)) = 1 \<and>
   sint (temperature_max after_first_sample) = 29 \<and>
   sint (temperature_max (checkStats_call shipped_limits second_sample_read)) = 33 \<and>
   sint (temperature_min (checkStats_call shipped_limits second_sample_read)) = 29 \<and>
   sint (humidity_max (checkStats_call shipped_limits second_sample_read)) = 52 \<and>
   sint (humidity_min (checkStats_call shipped_limits second_sample_read)) = 48 \<and>
   list_all no_sample_yet [Loop_turn (sensor_failed 0 0)] \<and>
   \<not> config_error shipped_limits \<and> dht_ret (sensor_ok 29 48) \<noteq> - 1 \<and>
   firmware shipped_limits ([Loop_turn (sensor_failed 0 0)] @ [Loop_turn (sensor_ok 29 48)]) =
     Inr (main_loop shipped_limits (sensor_ok 29 48)
            (main_loop shipped_limits (sensor_failed 0 0) (main_boot shipped_limits))) \<and>
   temperature_max (main_loop shipped_limits (sensor_ok 29 48)
            (main_loop shipped_limits (sensor_failed 0 0) (main_boot shipped_limits))) = 29 \<and>
   temperature_min (main_loop shipped_limits (sensor_ok 29 48)
            (main_loop shipped_limits (sensor_failed 0 0) (main_boot shipped_limits))) = 29 \<and>
   humidity_max (main_loop shipped_limits (sensor_ok 29 48)
            (main_loop shipped_limits (sensor_failed 0 0) (main_boot shipped_limits))) = 48 \<and>
   humidity_min (main_loop shipped_limits (sensor_ok 29 48)
            (main_loop shipped_limits (sensor_failed 0 0) (main_boot shipped_limits))) = 48"
proof -
  have r: "run shipped_limits [Loop_turn (sensor_ok 33 52)] after_first_sample =
     Inr (checkStats_call shipped_limits second_sample_read)"
    by (simp add: second_sample_read_def main_loop_def config_error_def shipped_limits_def
          sensor_ok_def Let_def)
  have v: "fst (isNewResultValid second_sample_read) = 1"
    by (simp add: sample_defs eval_defs)
  have d: "sint (temp_exceeded_dir (checkStats_call shipped_limits second_sample_read)) = 1"
    "sint (temperature_max after_first_sample) = 29"
    by (simp_all add: sample_defs eval_defs)
  have n: "list_all no_sample_yet [Loop_turn (sensor_failed 0 0)]"
    "\<not> config_error shipped_limits" "dht_ret (sensor_ok 29 48) \<noteq> - 1"
    by (simp_all add: sensor_failed_def sensor_ok_def config_error_def shipped_limits_def)
  have f: "firmware shipped_limits
       ([Loop_turn (sensor_failed 0 0)] @ [Loop_turn (sensor_ok 29 48)]) =
     Inr (main_loop shipped_limits (sensor_ok 29 48)
            (main_loop shipped_limits (sensor_failed 0 0) (main_boot shipped_limits)))"
    by (simp add: firmware_def)
  have t: "sint (temperature second_sample_read) = 33" "sint (humidity second_sample_read) = 52"
    "sint (temperature_max second_sample_read) = 29"
    "sint (temperature_min second_sample_read) = 29"
    "sint (humidity_max second_sample_read) = 48"
    "sint (humidity_min second_sample_read) = 48"
    "sint (dht_temperature (sensor_ok 29 48)) = 29" "sint (dht_humidity (sensor_ok 29 48)) = 48"
    "dht_temperature (sensor_ok 29 48) = 29" "dht_humidity (sensor_ok 29 48) = 48"
    by (simp_all add: sample_defs eval_defs)
  show ?thesis
    using r v d n f t
      extremes_follow_accepted_samples [of shipped_limits "[Loop_turn (sensor_ok 33 52)]"
        after_first_sample "checkStats_call shipped_limits second_sample_read"
        second_sample_read "[Loop_turn (sensor_failed 0 0)]" "sensor_ok 29 48"
        "main_loop shipped_limits (sensor_ok 29 48)
            (main_loop shipped_limits (sensor_failed 0 0) (main_boot shipped_limits))"]
    by simp
qed

text \<open>
  C4, as the claim is worded: a failed read leaves the animation selector unchanged.
  The failure branch assigns \<open>current_animation = 1\<close>: after a nominal sample has
  selected the check mark, a failed read selects the warning.
\<close>

theorem failed_read_selects_warning_counterexample:
  "\<not> config_error shipped_limits \<and> dht_ret (sensor_failed 25 40) = - 1 \<and>
   current_animation
     (main_loop shipped_limits (sensor_ok 25 40) (main_boot shipped_limits)) = 0 \<and>
   current_animation
     (main_loop shipped_limits (sensor_failed 25 40)
        (main_loop shipped_limits (sensor_ok 25 40) (main_boot shipped_limits))) = 1"
  by (simp add: eval_defs)

text \<open>
  C4, amended. A failed read leaves the validator's memory, both directions and the
  four extremes unchanged; it selects the warning animation and writes the input
  error text to the display.
\<close>

theorem failed_read_frame:
  assumes "\<not> config_error L" and "dht_ret r = - 1"
  shows "temperature_previous (main_loop L r s) = temperature_previous s \<and>
         humidity_previous (main_loop L r s) = humidity_previous s \<and>
         test_frequency (main_loop L r s) = test_frequency s \<and>
         temp_exceeded_dir (main_loop L r s) = temp_exceeded_dir s \<and>
         hum_exceeded_dir (main_loop L r s) = hum_exceeded_dir s \<and>
         temperature_max (main_loop L r s) = temperature_max s \<and>
         temperature_min (main_loop L r s) = temperature_min s \<and>
         humidity_max (main_loop L r s) = humidity_max s \<and>
         humidity_min (main_loop L r s) = humidity_min s \<and>
         current_animation (main_loop L r s) = 1 \<and>
         calls (main_loop L r s) =
           calls s @ [Dht_gettemperaturehumidity, Lcd_puts ''Input Error:'', Lcd_goto 0x40,
                      Lcd_puts ''Bad sensor data.'']"
  using assms by (simp add: main_loop_failed)

theorem failed_read_frame_witness:
  "\<not> config_error shipped_limits \<and> dht_ret (sensor_failed 25 40) = - 1 \<and>
   temperature_previous (main_loop shipped_limits (sensor_failed 25 40) after_first_sample) = 29 \<and>
   humidity_previous (main_loop shipped_limits (sensor_failed 25 40) after_first_sample) = 48 \<and>
   test_frequency (main_loop shipped_limits (sensor_failed 25 40) after_first_sample) = 1 \<and>
   temperature_max (main_loop shipped_limits (sensor_failed 25 40) after_first_sample) = 29 \<and>
   humidity_min (main_loop shipped_limits (sensor_failed 25 40) after_first_sample) = 48 \<and>
   current_animation after_first_sample = 0 \<and>
   current_animation (main_loop shipped_limits (sensor_failed 25 40) after_first_sample) = 1"
proof -
  have h: "\<not> config_error shipped_limits" "dht_ret (sensor_failed 25 40) = - 1"
    by (simp_all add: config_error_def shipped_limits_def sensor_failed_def)
  have v: "temperature_previous after_first_sample = 29"
    "humidity_previous after_first_sample = 48" "test_frequency after_first_sample = 1"
    "temperature_max after_first_sample = 29" "humidity_min after_first_sample = 48"
    "current_animation after_first_sample = 0"
    by (simp_all add: sample_defs eval_defs)
  show ?thesis
    using h v failed_read_frame [OF h, of after_first_sample] by simp
qed

text \<open>
  C5 (after a configuration error the system halts and the error pane stays). With a
  temperature minimum of 30 above a maximum of 20, \<open>main\<close> writes the configuration
  error text and enters the empty loop without having called the sensor driver, and
  a turn of that loop changes nothing. The timer handler is not held back: interrupts
  are on since the set-up and the handler has no test for the error, so the first
  overflow writes the current values pane, with 0 and 0, over the error text that the
  loop's comment wants to stay until the problem is resolved.
\<close>

theorem config_error_pane_overwritten:
  "config_error inverted_limits \<and>
   calls (main_boot inverted_limits) =
     calls (main_setup power_up) @
     [Lcd_puts ''Config error:'', Lcd_goto 0x40, Lcd_puts ''Limit MIN > MAX''] \<and>
   Dht_gettemperaturehumidity \<notin> set (calls (main_boot inverted_limits)) \<and>
   main_loop inverted_limits (sensor_ok 25 40) (main_boot inverted_limits) =
     main_boot inverted_limits \<and>
   map_sum id calls (firmware inverted_limits [Timer1_overflow]) =
     Inr (calls (main_boot inverted_limits) @
          [Lcd_goto 0, Lcd_puts ''Temperature: '', Lcd_puts ''0'', Lcd_puts ''C  '',
           Lcd_goto 0x40, Lcd_puts ''Humidity:    '', Lcd_puts ''0'', Lcd_puts ''%  '',
           MatrixDisplay_animate LEDMATRIX_WARNING 1])"
  by (auto simp: firmware_def eval_defs ISR_def ISR_pane_def ISR_step_def
        ISR_animation_def ISR_bitmap_def printTempHum_Current_def show_int_def show_nat.simps)



text \<open>
  C7 (the animation selector). After an accepted sample the selector is the check
  mark when both directions are nominal and the warning otherwise. After any run the
  selector is one of these two, the bitmap the handler would play is not the heart,
  and the heart has never been played.
\<close>

theorem animation_selection:
  "(fst (isNewResultValid s0) = 1 \<longrightarrow>
      current_animation (checkStats L t h s0) =
        (if temp_exceeded_dir (checkStats L t h s0) = 0 \<and>
            hum_exceeded_dir (checkStats L t h s0) = 0 then 0 else 1) \<and>
      ISR_bitmap (checkStats L t h s0) =
        (if temp_exceeded_dir (checkStats L t h s0) = 0 \<and>
            hum_exceeded_dir (checkStats L t h s0) = 0
         then LEDMATRIX_CHECK else LEDMATRIX_WARNING)) \<and>
   (\<exists>s. firmware L es = Inr s \<and>
      (current_animation s = 0 \<or> current_animation s = 1) \<and>
      ISR_bitmap s \<noteq> LEDMATRIX_HEART \<and>
      MatrixDisplay_animate LEDMATRIX_HEART 1 \<notin> set (calls s))"
proof -
  have a: "current_animation (checkStats L t h s0) =
        (if temp_exceeded_dir (checkStats L t h s0) = 0 \<and>
            hum_exceeded_dir (checkStats L t h s0) = 0 then 0 else 1)"
    if "fst (isNewResultValid s0) = 1"
    using that check_limits_animation [of L t h "snd (isNewResultValid s0)"]
    by (simp add: checkStats_accepted adjust_extremes_frame)
  have b: "ISR_bitmap s1 = (if c then LEDMATRIX_CHECK else LEDMATRIX_WARNING)"
    if "current_animation s1 = (if c then 0 else 1)" for s1 c
    using that by (simp add: ISR_bitmap_def)
  obtain s where s: "firmware L es = Inr s" "wellformed s"
    using firmware_wellformed by blast
  have "ISR_bitmap s \<noteq> LEDMATRIX_HEART"
    using s(2)
    by (auto simp: wellformed_def ISR_bitmap_def LEDMATRIX_CHECK_def LEDMATRIX_WARNING_def
          LEDMATRIX_HEART_def)
  with s a b show ?thesis
    by (auto simp: wellformed_def)
qed

theorem animation_selection_witness:
  "fst (isNewResultValid power_up) = 1 \<and>
   current_animation (checkStats shipped_limits 31 40 power_up) = 1 \<and>
   ISR_bitmap (checkStats shipped_limits 31 40 power_up) = LEDMATRIX_WARNING \<and>
   current_animation (checkStats shipped_limits 25 40 power_up) = 0 \<and>
   ISR_bitmap (checkStats shipped_limits 25 40 power_up) = LEDMATRIX_CHECK"
proof -
  have h: "fst (isNewResultValid power_up) = 1"
    by (simp add: isNewResultValid_def power_up_def)
  have d: "temp_exceeded_dir (checkStats shipped_limits 31 40 power_up) = 1"
    "temp_exceeded_dir (checkStats shipped_limits 25 40 power_up) = 0"
    "hum_exceeded_dir (checkStats shipped_limits 25 40 power_up) = 0"
    by (simp_all add: eval_defs)
  show ?thesis
    using h d animation_selection [of power_up shipped_limits 31 40 "[]"]
      animation_selection [of power_up shipped_limits 25 40 "[]"]
    by simp
qed

text \<open>
  C8 (alarm panes). At step 0 with the temperature direction 1 or -1 the handler
  draws the temperature warning (too high or too low, with the limit concerned and
  the warning sound), at step 1 with the humidity direction 1 or -1 the humidity
  warning; at steps 0 and 1 with both directions 0, and at step 2 always, it draws
  the current values pane: the two lines "Temperature: " and "Humidity:    " with the
  current sample in decimal. The pane is what the handler appends to the trace of
  driver calls, before the animation.
\<close>

theorem alarm_panes_override:
  "(sint (display_step s) = 0 \<and> sint (temp_exceeded_dir s) = 1 \<longrightarrow>
      ISR_pane L s =
        Inr [Lcd_goto 0, Lcd_puts ''HIGH TEMPERATURE'', Lcd_goto 0x40, Lcd_puts ''Over '',
             Lcd_puts (show_int (limit_value (TEMP_LIMIT_MAX L))), Lcd_puts ''C limit! '',
             WarningSounds 2000]) \<and>
   (sint (display_step s) = 0 \<and> sint (temp_exceeded_dir s) = - 1 \<longrightarrow>
      ISR_pane L s =
        Inr [Lcd_goto 0, Lcd_puts ''LOW TEMPERATURE '', Lcd_goto 0x40, Lcd_puts ''Under '',
             Lcd_puts (show_int (limit_value (TEMP_LIMIT_MIN L))), Lcd_puts ''C limit! '',
             WarningSounds 2000]) \<and>
   (sint (display_step s) = 1 \<and> sint (hum_exceeded_dir s) = 1 \<longrightarrow>
      ISR_pane L s =
        Inr [Lcd_goto 0, Lcd_puts ''HIGH HUMIDITY   '', Lcd_goto 0x40, Lcd_puts ''Over '',
             Lcd_puts (show_int (limit_value (HUM_LIMIT_MAX L))), Lcd_puts ''% limit! '',
             WarningSounds 2000]) \<and>
   (sint (display_step s) = 1 \<and> sint (hum_exceeded_dir s) = - 1 \<longrightarrow>
      ISR_pane L s =
        Inr [Lcd_goto 0, Lcd_puts ''LOW HUMIDITY    '', Lcd_goto 0x40, Lcd_puts ''Under '',
             Lcd_puts (show_int (limit_value (HUM_LIMIT_MIN L))), Lcd_puts ''% limit! '',
             WarningSounds 2000]) \<and>
   ((sint (display_step s) = 0 \<or> sint (display_step s) = 1) \<and>
      sint (temp_exceeded_dir s) = 0 \<and> sint (hum_exceeded_dir s) = 0 \<longrightarrow>
      ISR_pane L s =
        Inr [Lcd_goto 0, Lcd_puts ''Temperature: '',
             Lcd_puts (show_int (sint (temperature s))), Lcd_puts ''C  '',
             Lcd_goto 0x40, Lcd_puts ''Humidity:    '',
             Lcd_puts (show_int (sint (humidity s))), Lcd_puts ''%  '']) \<and>
   (sint (display_step s) = 2 \<longrightarrow>
      ISR_pane L s =
        Inr [Lcd_goto 0, Lcd_puts ''Temperature: '',
             Lcd_puts (show_int (sint (temperature s))), Lcd_puts ''C  '',
             Lcd_goto 0x40, Lcd_puts ''Humidity:    '',
             Lcd_puts (show_int (sint (humidity s))), Lcd_puts ''%  '']) \<and>
   (sint (display_step s) = 0 \<and>
      (sint (temp_exceeded_dir s) = 1 \<or> sint (temp_exceeded_dir s) = - 1) \<or>
    sint (display_step s) = 1 \<and>
      (sint (hum_exceeded_dir s) = 1 \<or> sint (hum_exceeded_dir s) = - 1) \<longrightarrow>
      ISR_pane L s \<noteq>
        Inr [Lcd_goto 0, Lcd_puts ''Temperature: '',
             Lcd_puts (show_int (sint (temperature s))), Lcd_puts ''C  '',
             Lcd_goto 0x40, Lcd_puts ''Humidity:    '',
             Lcd_puts (show_int (sint (humidity s))), Lcd_puts ''%  '']) \<and>
   (\<exists>pane s' animation.
      ISR_pane L s = Inr pane \<and> ISR L s = Inr s' \<and> calls s' = calls s @ pane @ animation)"
proof -
  obtain pane where pane: "ISR_pane L s = Inr pane" using ISR_pane_total by blast
  have other: "sint (display_step s) = 0 \<and>
      (sint (temp_exceeded_dir s) = 1 \<or> sint (temp_exceeded_dir s) = - 1) \<or>
    sint (display_step s) = 1 \<and>
      (sint (hum_exceeded_dir s) = 1 \<or> sint (hum_exceeded_dir s) = - 1) \<longrightarrow>
      ISR_pane L s \<noteq>
        Inr [Lcd_goto 0, Lcd_puts ''Temperature: '',
             Lcd_puts (show_int (sint (temperature s))), Lcd_puts ''C  '',
             Lcd_goto 0x40, Lcd_puts ''Humidity:    '',
             Lcd_puts (show_int (sint (humidity s))), Lcd_puts ''%  '']"
    by (auto simp: ISR_pane_def printWarning_def)
  obtain s' where s': "ISR L s = Inr s'" using ISR_total by blast
  have link: "\<exists>pane s' animation.
      ISR_pane L s = Inr pane \<and> ISR L s = Inr s' \<and> calls s' = calls s @ pane @ animation"
    using pane s' ISR_calls [OF s' pane] by blast
  have t_over: "sint (display_step s) = 0 \<and> sint (temp_exceeded_dir s) = 1 \<longrightarrow>
      ISR_pane L s =
        Inr [Lcd_goto 0, Lcd_puts ''HIGH TEMPERATURE'', Lcd_goto 0x40, Lcd_puts ''Over '',
             Lcd_puts (show_int (limit_value (TEMP_LIMIT_MAX L))), Lcd_puts ''C limit! '',
             WarningSounds 2000]"
    by (simp add: ISR_pane_def printWarning_def)
  have t_under: "sint (display_step s) = 0 \<and> sint (temp_exceeded_dir s) = - 1 \<longrightarrow>
      ISR_pane L s =
        Inr [Lcd_goto 0, Lcd_puts ''LOW TEMPERATURE '', Lcd_goto 0x40, Lcd_puts ''Under '',
             Lcd_puts (show_int (limit_value (TEMP_LIMIT_MIN L))), Lcd_puts ''C limit! '',
             WarningSounds 2000]"
    by (simp add: ISR_pane_def printWarning_def)
  have h_over: "sint (display_step s) = 1 \<and> sint (hum_exceeded_dir s) = 1 \<longrightarrow>
      ISR_pane L s =
        Inr [Lcd_goto 0, Lcd_puts ''HIGH HUMIDITY   '', Lcd_goto 0x40, Lcd_puts ''Over '',
             Lcd_puts (show_int (limit_value (HUM_LIMIT_MAX L))), Lcd_puts ''% limit! '',
             WarningSounds 2000]"
    by (simp add: ISR_pane_def printWarning_def)
  have h_under: "sint (display_step s) = 1 \<and> sint (hum_exceeded_dir s) = - 1 \<longrightarrow>
      ISR_pane L s =
        Inr [Lcd_goto 0, Lcd_puts ''LOW HUMIDITY    '', Lcd_goto 0x40, Lcd_puts ''Under '',
             Lcd_puts (show_int (limit_value (HUM_LIMIT_MIN L))), Lcd_puts ''% limit! '',
             WarningSounds 2000]"
    by (simp add: ISR_pane_def printWarning_def)
  have nominal: "(sint (display_step s) = 0 \<or> sint (display_step s) = 1) \<and>
      sint (temp_exceeded_dir s) = 0 \<and> sint (hum_exceeded_dir s) = 0 \<longrightarrow>
      ISR_pane L s =
        Inr [Lcd_goto 0, Lcd_puts ''Temperature: '',
             Lcd_puts (show_int (sint (temperature s))), Lcd_puts ''C  '',
             Lcd_goto 0x40, Lcd_puts ''Humidity:    '',
             Lcd_puts (show_int (sint (humidity s))), Lcd_puts ''%  '']"
    by (auto simp: ISR_pane_def printTempHum_Current_def)
  have two: "sint (display_step s) = 2 \<longrightarrow>
      ISR_pane L s =
        Inr [Lcd_goto 0, Lcd_puts ''Temperature: '',
             Lcd_puts (show_int (sint (temperature s))), Lcd_puts ''C  '',
             Lcd_goto 0x40, Lcd_puts ''Humidity:    '',
             Lcd_puts (show_int (sint (humidity s))), Lcd_puts ''%  '']"
    by (simp add: ISR_pane_def printTempHum_Current_def)
  from t_over t_under h_over h_under nominal two other link show ?thesis by blast
qed

theorem alarm_panes_override_witness:
  "sint (display_step temperature_over) = 0 \<and> sint (temp_exceeded_dir temperature_over) = 1 \<and>
   ISR_pane shipped_limits temperature_over =
     Inr [Lcd_goto 0, Lcd_puts ''HIGH TEMPERATURE'', Lcd_goto 0x40, Lcd_puts ''Over '',
          Lcd_puts ''30'', Lcd_puts ''C limit! '', WarningSounds 2000] \<and>
   sint (display_step temperature_under) = 0 \<and>
   sint (temp_exceeded_dir temperature_under) = - 1 \<and>
   ISR_pane shipped_limits temperature_under =
     Inr [Lcd_goto 0, Lcd_puts ''LOW TEMPERATURE '', Lcd_goto 0x40, Lcd_puts ''Under '',
          Lcd_puts ''20'', Lcd_puts ''C limit! '', WarningSounds 2000] \<and>
   sint (display_step humidity_over) = 1 \<and> sint (hum_exceeded_dir humidity_over) = 1 \<and>
   ISR_pane shipped_limits humidity_over =
     Inr [Lcd_goto 0, Lcd_puts ''HIGH HUMIDITY   '', Lcd_goto 0x40, Lcd_puts ''Over '',
          Lcd_puts ''50'', Lcd_puts ''% limit! '', WarningSounds 2000] \<and>
   sint (display_step humidity_under) = 1 \<and> sint (hum_exceeded_dir humidity_under) = - 1 \<and>
   ISR_pane shipped_limits humidity_under =
     Inr [Lcd_goto 0, Lcd_puts ''LOW HUMIDITY    '', Lcd_goto 0x40, Lcd_puts ''Under '',
          Lcd_puts ''20'', Lcd_puts ''% limit! '', WarningSounds 2000] \<and>
   sint (display_step after_first_sample) = 0 \<and>
   sint (temp_exceeded_dir after_first_sample) = 0 \<and>
   sint (hum_exceeded_dir after_first_sample) = 0 \<and>
   ISR_pane shipped_limits after_first_sample =
     Inr [Lcd_goto 0, Lcd_puts ''Temperature: '', Lcd_puts ''29'', Lcd_puts ''C  '',
          Lcd_goto 0x40, Lcd_puts ''Humidity:    '', Lcd_puts ''48'', Lcd_puts ''%  ''] \<and>
   sint (display_step (after_first_sample\<lparr>display_step := 1\<rparr>)) = 1 \<and>
   ISR_pane shipped_limits (after_first_sample\<lparr>display_step := 1\<rparr>) =
     Inr [Lcd_goto 0, Lcd_puts ''Temperature: '', Lcd_puts ''29'', Lcd_puts ''C  '',
          Lcd_goto 0x40, Lcd_puts ''Humidity:    '', Lcd_puts ''48'', Lcd_puts ''%  ''] \<and>
   sint (display_step (temperature_under\<lparr>display_step := 2\<rparr>)) = 2 \<and>
   ISR_pane shipped_limits (temperature_under\<lparr>display_step := 2\<rparr>) =
     Inr [Lcd_goto 0, Lcd_puts ''Temperature: '', Lcd_puts ''-5'', Lcd_puts ''C  '',
          Lcd_goto 0x40, Lcd_puts ''Humidity:    '', Lcd_puts ''40'', Lcd_puts ''%  '']"
proof -
  have v: "sint (display_step temperature_over) = 0"
    "sint (temp_exceeded_dir temperature_over) = 1"
    "sint (display_step temperature_under) = 0"
    "sint (temp_exceeded_dir temperature_under) = - 1"
    "sint (temperature temperature_under) = - 5" "sint (humidity temperature_under) = 40"
    "sint (display_step humidity_over) = 1" "sint (hum_exceeded_dir humidity_over) = 1"
    "sint (display_step humidity_under) = 1" "sint (hum_exceeded_dir humidity_under) = - 1"
    "sint (display_step after_first_sample) = 0"
    "sint (temp_exceeded_dir after_first_sample) = 0"
    "sint (hum_exceeded_dir after_first_sample) = 0"
    "sint (temperature after_first_sample) = 29" "sint (humidity after_first_sample) = 48"
    by (simp_all add: temperature_over_def temperature_under_def humidity_over_def
          humidity_under_def sample_defs eval_defs)
  have l: "limit_value (TEMP_LIMIT_MAX shipped_limits) = 30"
    "limit_value (TEMP_LIMIT_MIN shipped_limits) = 20"
    "limit_value (HUM_LIMIT_MAX shipped_limits) = 50"
    "limit_value (HUM_LIMIT_MIN shipped_limits) = 20"
    by (simp_all add: shipped_limits_def)
  have d: "show_int 30 = ''30''" "show_int 20 = ''20''" "show_int 50 = ''50''"
    "show_int 29 = ''29''" "show_int 48 = ''48''" "show_int (- 5) = ''-5''"
    "show_int 40 = ''40''"
    by (simp_all add: show_int_def show_nat.simps)
  show ?thesis
    using v
      alarm_panes_override [of temperature_over shipped_limits]
      alarm_panes_override [of temperature_under shipped_limits]
      alarm_panes_override [of humidity_over shipped_limits]
      alarm_panes_override [of humidity_under shipped_limits]
      alarm_panes_override [of after_first_sample shipped_limits]
      alarm_panes_override [of "after_first_sample\<lparr>display_step := 1\<rparr>" shipped_limits]
      alarm_panes_override [of "temperature_under\<lparr>display_step := 2\<rparr>" shipped_limits]
    by (simp add: l d)
qed

text \<open>
  C9 (a rejected sample). When \<open>isNewResultValid\<close> does not return 1 it has changed
  nothing, and \<open>checkStats\<close> returns the state it was given: extremes, directions,
  animation selector and validator memory are as before.
\<close>

theorem rejected_sample_is_inert:
  assumes "fst (isNewResultValid s) \<noteq> 1"
  shows "snd (isNewResultValid s) = s \<and> checkStats L t h s = s \<and>
         checkStats_call L s = s"
  using assms
  by (simp add: isNewResultValid_rejected checkStats_rejected checkStats_call_def)

theorem rejected_sample_is_inert_witness:
  "fst (isNewResultValid
         (dht_gettemperaturehumidity (sensor_ok 36 40)
            (main_loop shipped_limits (sensor_ok 29 40) (main_boot shipped_limits)))) \<noteq> 1 \<and>
   checkStats_call shipped_limits
     (dht_gettemperaturehumidity (sensor_ok 36 40)
        (main_loop shipped_limits (sensor_ok 29 40) (main_boot shipped_limits))) =
   dht_gettemperaturehumidity (sensor_ok 36 40)
     (main_loop shipped_limits (sensor_ok 29 40) (main_boot shipped_limits))"
proof -
  have h: "fst (isNewResultValid
         (dht_gettemperaturehumidity (sensor_ok 36 40)
            (main_loop shipped_limits (sensor_ok 29 40) (main_boot shipped_limits)))) \<noteq> 1"
    by (simp add: eval_defs)
  show ?thesis
    using h rejected_sample_is_inert [OF h, of shipped_limits] by simp
qed

text \<open>
  C10 (the warning buffer). After any run both directions are -1, 0 or 1 and the
  handler draws its pane without reading the buffer of \<open>printWarning\<close>
  uninitialised; in fact the handler does so in every state, since it calls
  \<open>printWarning\<close> only under the test that the direction is 1 or -1, and these are
  the only directions for which \<open>printWarning\<close> fills the buffer.
\<close>

theorem warning_buffer_always_initialized:
  "(\<exists>s pane. firmware L es = Inr s \<and>
      (sint (temp_exceeded_dir s) = - 1 \<or> sint (temp_exceeded_dir s) = 0 \<or>
       sint (temp_exceeded_dir s) = 1) \<and>
      (sint (hum_exceeded_dir s) = - 1 \<or> sint (hum_exceeded_dir s) = 0 \<or>
       sint (hum_exceeded_dir s) = 1) \<and>
      ISR_pane L s = Inr pane) \<and>
   (\<exists>pane. ISR_pane L s0 = Inr pane) \<and>
   (printWarning L k d = Inl Uninitialized_read \<longleftrightarrow>
      (k = 0 \<or> k = 1) \<and> d \<noteq> 1 \<and> d \<noteq> - 1)"
proof -
  obtain s where s: "firmware L es = Inr s" "wellformed s"
    using firmware_wellformed by blast
  obtain pane where "ISR_pane L s = Inr pane"
    using ISR_pane_total by blast
  moreover have "sint (temp_exceeded_dir s) = - 1 \<or> sint (temp_exceeded_dir s) = 0 \<or>
       sint (temp_exceeded_dir s) = 1"
    using s(2) by (auto simp: wellformed_def)
  moreover have "sint (hum_exceeded_dir s) = - 1 \<or> sint (hum_exceeded_dir s) = 0 \<or>
       sint (hum_exceeded_dir s) = 1"
    using s(2) by (auto simp: wellformed_def)
  moreover have "printWarning L k d = Inl Uninitialized_read \<longleftrightarrow>
      (k = 0 \<or> k = 1) \<and> d \<noteq> 1 \<and> d \<noteq> - 1"
    by (simp add: printWarning_def)
  ultimately show ?thesis
    using s(1) ISR_pane_total [of L s0] by blast
qed

theorem warning_buffer_always_initialized_witness:
  "printWarning shipped_limits 0 0 = Inl Uninitialized_read \<and>
   (\<exists>pane. ISR_pane shipped_limits (power_up\<lparr>temp_exceeded_dir := 5\<rparr>) = Inr pane)"
  using warning_buffer_always_initialized
    [of shipped_limits "[]" "power_up\<lparr>temp_exceeded_dir := 5\<rparr>" 0 0]
  by simp

end
